theory Spec2Isabelle
  imports Main
begin

section \<open>Values shared by the two source files\<close>

text \<open>
  A JavaScript \<open>Error\<close> instance: the name of its class and its message. Everything else
  that can be thrown or used as a rejection reason is a value of the type parameter \<open>'v\<close>.
\<close>

datatype js_error = JsError string string

datatype 'v thrown = ErrorInstance js_error | NonError 'v

text \<open>
  \<open>new Error(ex)\<close> converts its argument to a string, the message. The conversion is a
  parameter: \<open>to_string v\<close> is the string, or what the conversion throws (a \<open>TypeError\<close> for a
  Symbol and for an object that has no primitive value).
\<close>

definition new_Error :: "('v \<Rightarrow> 'v thrown + string) \<Rightarrow> 'v \<Rightarrow> 'v thrown + js_error" where
  "new_Error to_string ex =
     (case to_string ex of
        Inl t \<Rightarrow> Inl t
      | Inr message \<Rightarrow> Inr (JsError ''Error'' message))"

text \<open>
  The event record of \<open>data/IServerSentEvent\<close>, with the two fields that the object
  literals of \<open>run\<close> give it.
\<close>

record server_sent_event =
  event :: string
  data :: string

section \<open>stream/ChannelWritable.ts\<close>

text \<open>
  How the promise returned by \<open>channelPublisher.publishEvent(event)\<close> settles. The publisher
  is a collaborator: it is a parameter of the model, a function from the event to
  \<open>Some\<close> outcome, or \<open>None\<close> when the promise never settles. An exception thrown by the
  call itself lands in the same \<open>catch\<close> as a rejection, so it is a \<open>Rejected\<close> outcome too.
\<close>

datatype 'v settled = Resolved | Rejected "'v thrown"

text \<open>One invocation of the write callback: \<open>callback()\<close> or \<open>callback(err)\<close>.\<close>

datatype callback_call = Callback "js_error option"

text \<open>
  \<open>_write(event, _encoding, callback)\<close>. The result is how the promise of the method settles
  (\<open>None\<close> while it is pending, \<open>Some (Inr ())\<close> when it resolves, \<open>Some (Inl t)\<close> when it
  rejects with \<open>t\<close>) and the list of callback invocations the call makes, in order. Nothing
  after the \<open>await\<close> runs while the promise of \<open>publishEvent\<close> is pending. What
  \<open>new Error(ex)\<close> throws at line 27 is thrown inside the \<open>catch\<close> block, so it leaves the
  method: lines 34 to 38 do not run.
\<close>

definition ChannelWritable_write ::
  "('e \<Rightarrow> 'v settled option) \<Rightarrow> ('v \<Rightarrow> 'v thrown + string) \<Rightarrow> 'e
     \<Rightarrow> ('v thrown + unit) option \<times> callback_call list" where
  "ChannelWritable_write publishEvent to_string ev =
     (case publishEvent ev of
        None \<Rightarrow> (None, [])
      | Some outcome \<Rightarrow>
          (case (case outcome of
                   Resolved \<Rightarrow> Inr None
                 | Rejected ex \<Rightarrow>
                     (case ex of
                        ErrorInstance e \<Rightarrow> Inr (Some e)
                      | NonError v \<Rightarrow>
                          (case new_Error to_string v of
                             Inl t \<Rightarrow> Inl t
                           | Inr e \<Rightarrow> Inr (Some e)))) of
             Inl t \<Rightarrow> (Some (Inl t), [])
           | Inr err \<Rightarrow>
               (Some (Inr ()), if err \<noteq> None then [Callback err] else [Callback None])))"

section \<open>ConnectEventStream.ts: the data\<close>

text \<open>\<open>req.grip\<close>, the flags that proxy detection leaves on the request.\<close>

record grip_status =
  isProxied :: bool
  isSigned :: bool
  needsSigned :: bool

text \<open>A header of an \<open>IncomingMessage\<close> is a string or an array of strings.\<close>

datatype header_value = Single string | Multiple "string list"

record request =
  headers :: "string \<rightharpoonup> header_value"
  url :: "string option"
  grip :: "grip_status option"

text \<open>
  \<open>IHandlerOptions\<close>: both fields are optional; \<open>channelsFromQuery\<close> is a boolean or the name
  of the query parameter.
\<close>

datatype channels_from_query = FromQueryBool bool | FromQueryName string

record handler_options =
  channels :: "string list option"
  channelsFromQuery :: "channels_from_query option"

text \<open>
  The argument of the constructor: \<open>null\<close>, a publisher specification (an opaque value of
  type \<open>'g\<close>, with no \<open>grip\<close> property), or a configuration object with its optional \<open>grip\<close>
  and \<open>prefix\<close> properties.
\<close>

datatype 'g constructor_params =
    ParamsNull
  | ParamsSpec 'g
  | ParamsConfig "'g option" "string option"

text \<open>
  What the constructor hands to \<open>new ConnectGrip\<close> as \<open>grip\<close>: a publisher specification, or
  the configuration object itself (kept here by its \<open>prefix\<close> property) when that object has
  no \<open>grip\<close>.
\<close>

datatype 'g grip_param = GripSpec 'g | GripConfigObject "string option"

record 'g connect_grip =
  cg_grip :: "'g grip_param"
  cg_prefix :: string

text \<open>
  The handler object. A field the constructor never assigns is \<open>None\<close>. \<open>_channelWritables\<close>
  holds the own properties of the object literal \<open>{}\<close>; their values are references into a
  heap of constructed \<open>ChannelWritable\<close> objects.
\<close>

record 'g connect_event_stream =
  connectGrip :: "'g connect_grip option"
  prefix :: string
  channelWritables :: "string \<rightharpoonup> nat"

definition new_ConnectEventStream :: "'g constructor_params \<Rightarrow> 'g connect_event_stream" where
  "new_ConnectEventStream params =
     (let (gripParam, prefix0) =
            (case params of
               ParamsConfig (Some g) p \<Rightarrow> (Some (GripSpec g), p)
             | ParamsConfig None p \<Rightarrow> (Some (GripConfigObject p), None)
             | ParamsSpec g \<Rightarrow> (Some (GripSpec g), None)
             | ParamsNull \<Rightarrow> (None, None));
          prefix1 = (case prefix0 of None \<Rightarrow> ''events-'' | Some p \<Rightarrow> p)
      in \<lparr> connectGrip =
             (case gripParam of
                None \<Rightarrow> None
              | Some g \<Rightarrow> Some \<lparr> cg_grip = g, cg_prefix = prefix1 \<rparr>),
           prefix = prefix1,
           channelWritables = Map.empty \<rparr>)"

section \<open>ConnectEventStream.ts: getChannelWritable\<close>

text \<open>
  \<open>_channelWritables\<close> is an ordinary object, so reading \<open>_channelWritables[channel]\<close> finds
  an own property first and a property inherited from \<open>Object.prototype\<close> otherwise.
\<close>

datatype js_value = ObjRef nat | ObjectPrototypeMember string | Undefined

definition Object_prototype_names :: "string list" where
  "Object_prototype_names =
     [''constructor'', ''__proto__'', ''hasOwnProperty'', ''isPrototypeOf'',
      ''propertyIsEnumerable'', ''toLocaleString'', ''toString'', ''valueOf'',
      ''__defineGetter__'', ''__defineSetter__'', ''__lookupGetter__'',
      ''__lookupSetter__'']"

definition get_property :: "(string \<rightharpoonup> nat) \<Rightarrow> string \<Rightarrow> js_value" where
  "get_property own key =
     (case own key of
        Some r \<Rightarrow> ObjRef r
      | None \<Rightarrow>
          if key \<in> set Object_prototype_names then ObjectPrototypeMember key
          else Undefined)"

text \<open>
  The heap of \<open>ChannelWritable\<close> objects: entry \<open>r\<close> is the channel that object \<open>r\<close> was
  constructed with. \<open>new ChannelWritable(this, channel)\<close> allocates the next entry.
\<close>

type_synonym heap = "string list"

text \<open>
  \<open>getChannelWritable(channel)\<close>. The assignment runs only when the read gave \<open>undefined\<close>
  (no stored value is \<open>null\<close>), so never for a name of \<open>Object.prototype\<close>.
\<close>

definition getChannelWritable ::
  "string \<Rightarrow> 'g connect_event_stream \<times> heap \<Rightarrow> js_value \<times> 'g connect_event_stream \<times> heap" where
  "getChannelWritable channel s =
     (let (this, hp) = s;
          (this', hp') =
            (if get_property (channelWritables this) channel = Undefined
             then (this\<lparr>channelWritables := (channelWritables this)(channel \<mapsto> length hp)\<rparr>,
                   hp @ [channel])
             else (this, hp))
      in (get_property (channelWritables this') channel, this', hp'))"

section \<open>ConnectEventStream.ts: run\<close>

text \<open>
  The collaborators of \<open>run\<close> that live outside the two source files are parameters of the
  model:
  \<^item> \<open>accepts_types req t\<close> is \<open>accepts(req).types(t)\<close>: the negotiated type, \<open>None\<close> for
    \<open>false\<close>;
  \<^item> \<open>connectGrip_run cg req\<close> is \<open>cg.run(req, res)\<close>: it rejects with an error, or leaves
    \<open>req.grip\<close> with the value returned;
  \<^item> \<open>flattenHttpHeaders\<close> of \<open>utils/http\<close>;
  \<^item> \<open>searchParams req\<close> is \<open>new URL(req.url, 'http://' + host).searchParams\<close>, as its list
    of name and value pairs, or the error that the \<open>URL\<close> constructor throws;
  \<^item> \<open>encodeEvent\<close> and \<open>joinEncodedEvents\<close> of \<open>utils/textEventStream\<close>;
  \<^item> \<open>KEEP_ALIVE_TIMEOUT\<close> of \<open>constants\<close>.
\<close>

record 'g env =
  accepts_types :: "request \<Rightarrow> string \<Rightarrow> string option"
  connectGrip_run :: "'g connect_grip \<Rightarrow> request \<Rightarrow> js_error + grip_status option"
  flattenHttpHeaders :: "header_value option \<Rightarrow> string option"
  searchParams :: "request \<Rightarrow> js_error + (string \<times> string) list"
  encodeEvent :: "server_sent_event \<Rightarrow> string"
  joinEncodedEvents :: "string list \<Rightarrow> string"
  KEEP_ALIVE_TIMEOUT :: nat

text \<open>
  What \<open>run\<close> does to the outside, in the order of its statements: assignments and calls on
  the request and the response, the call of proxy detection, the calls on the hold
  instruction obtained from \<open>res.grip.startInstruct()\<close>, and the subscription on
  \<open>this.addressedEvents\<close> that is piped through the serializer into the response.
\<close>

datatype op =
    ConnectGripRun
  | ReqSetStatusCode nat
  | ResSetStatusCode nat
  | ResSetHeader string string
  | ResWrite string
  | ResEnd "string option"
  | StartInstruct
  | SetHoldStream
  | AddChannel "string list"
  | SetKeepAlive string nat
  | SubscribeAndPipe "string list"

text \<open>Reading a property of \<open>undefined\<close>.\<close>

definition TypeError_undefined :: "string \<Rightarrow> js_error" where
  "TypeError_undefined p =
     JsError ''TypeError''
       (''Cannot read properties of undefined (reading '' @ [CHR 0x27] @ p @ [CHR 0x27]
        @ '')'')"

text \<open>
  Lines 197 to 203: proxy detection runs when \<open>req.grip\<close> is unset; then \<open>req.grip\<close> is read
  and its \<open>isProxied\<close> dereferenced.
\<close>

definition DetectProxy ::
  "'g env \<Rightarrow> 'g connect_event_stream \<Rightarrow> request \<Rightarrow> (js_error + grip_status) \<times> op list" where
  "DetectProxy env this req =
     (case grip req of
        Some g \<Rightarrow> (Inr g, [])
      | None \<Rightarrow>
          (case connectGrip this of
             None \<Rightarrow> (Inl (TypeError_undefined ''run''), [])
           | Some cg \<Rightarrow>
               (case connectGrip_run env cg req of
                  Inl ex \<Rightarrow> (Inl ex, [ConnectGripRun])
                | Inr None \<Rightarrow> (Inl (TypeError_undefined ''isProxied''), [ConnectGripRun])
                | Inr (Some g) \<Rightarrow> (Inr g, [ConnectGripRun]))))"

text \<open>Lines 224 to 226.\<close>

definition configured_channels :: "handler_options option \<Rightarrow> string list" where
  "configured_channels eventStreamOptions =
     (case eventStreamOptions of
        None \<Rightarrow> []
      | Some opts \<Rightarrow> (case channels opts of None \<Rightarrow> [] | Some cs \<Rightarrow> cs))"

definition readChannelsFromQuery :: "handler_options option \<Rightarrow> channels_from_query" where
  "readChannelsFromQuery eventStreamOptions =
     (case eventStreamOptions of
        None \<Rightarrow> FromQueryBool False
      | Some opts \<Rightarrow>
          (case channelsFromQuery opts of None \<Rightarrow> FromQueryBool False | Some q \<Rightarrow> q))"

definition channelParamName :: "handler_options option \<Rightarrow> string" where
  "channelParamName eventStreamOptions =
     (case readChannelsFromQuery eventStreamOptions of
        FromQueryName n \<Rightarrow> n
      | FromQueryBool _ \<Rightarrow> ''channel'')"

text \<open>\<open>searchParams.getAll(name)\<close>.\<close>

definition getAll :: "string \<Rightarrow> (string \<times> string) list \<Rightarrow> string list" where
  "getAll name params = map snd (filter (\<lambda>kv. fst kv = name) params)"

text \<open>The loop of lines 231 to 235.\<close>

fun push_query_values :: "string list \<Rightarrow> string list \<Rightarrow> string list" where
  "push_query_values chans [] = chans"
| "push_query_values chans (v # vs) =
     push_query_values (if v \<in> set chans then chans else chans @ [v]) vs"

text \<open>Lines 224 to 236: the channel list, or the error of the \<open>URL\<close> constructor.\<close>

definition ResolveChannels ::
  "'g env \<Rightarrow> request \<Rightarrow> handler_options option \<Rightarrow> js_error + string list" where
  "ResolveChannels env req eventStreamOptions =
     (let chans = configured_channels eventStreamOptions in
      if chans = [] \<or> readChannelsFromQuery eventStreamOptions \<noteq> FromQueryBool False
      then (case searchParams env req of
              Inl ex \<Rightarrow> Inl ex
            | Inr params \<Rightarrow>
                Inr (push_query_values chans
                       (getAll (channelParamName eventStreamOptions) params)))
      else Inr chans)"

text \<open>String concatenation with a boolean or a string operand.\<close>

definition js_to_string :: "channels_from_query \<Rightarrow> string" where
  "js_to_string q =
     (case q of
        FromQueryBool b \<Rightarrow> (if b then ''true'' else ''false'')
      | FromQueryName n \<Rightarrow> n)"

text \<open>Lines 241 to 245: the body of the answer to an empty channel list.\<close>

definition no_channels_message :: "handler_options option \<Rightarrow> string" where
  "no_channels_message eventStreamOptions =
     (let message = ''No specified channels.'';
          message' =
            (if readChannelsFromQuery eventStreamOptions \<noteq> FromQueryBool False
             then message @ '' Specify the channels to read from using the ?''
                    @ js_to_string (readChannelsFromQuery eventStreamOptions)
                    @ '' query parameter.''
             else message)
      in message' @ ''\<newline>'')"

text \<open>
  Lines 251 to 293: the handshake and the two delivery modes. \<open>res.grip.startInstruct()\<close> and
  the methods of the instruction it returns belong to the proxy library; their calls are
  recorded. The \<open>debug\<close> calls, and the \<open>toHeaders()\<close> that only feeds one, are left out.
\<close>

definition Handshake :: "'g env \<Rightarrow> grip_status \<Rightarrow> string list \<Rightarrow> op list" where
  "Handshake env g chans =
     (let events = [encodeEvent env \<lparr> event = ''stream-open'', data = '''' \<rparr>] in
      [ResSetStatusCode 200]
      @ (if isProxied g
         then [StartInstruct, SetHoldStream, AddChannel chans,
               SetKeepAlive (encodeEvent env \<lparr> event = ''keep-alive'', data = '''' \<rparr>)
                 (KEEP_ALIVE_TIMEOUT env)]
         else [ResSetHeader ''Connection'' ''Transfer-Encoding'',
               ResSetHeader ''Transfer-Encoding'' ''chunked''])
      @ [ResWrite (joinEncodedEvents env events)]
      @ (if isProxied g then [ResEnd None] else [SubscribeAndPipe chans]))"

text \<open>
  \<open>run(req, res, eventStreamOptions)\<close>: how the call completes (\<open>Inr ()\<close> when it returns,
  \<open>Inl\<close> the exception when it throws) and what it did until then.
\<close>

definition run ::
  "'g env \<Rightarrow> 'g connect_event_stream \<Rightarrow> request \<Rightarrow> handler_options option
     \<Rightarrow> (js_error + unit) \<times> op list" where
  "run env this req eventStreamOptions =
     (case accepts_types env req ''text/event-stream'' of
        None \<Rightarrow> (Inr (), [ResSetStatusCode 406, ResEnd (Some ''Not Acceptable.\<newline>'')])
      | Some types \<Rightarrow>
          (case DetectProxy env this req of
             (Inl ex, ops) \<Rightarrow> (Inl ex, ops)
           | (Inr g, ops) \<Rightarrow>
               if isProxied g \<and> needsSigned g \<and> \<not> isSigned g
               then (Inr (), ops @ [ReqSetStatusCode 403,
                                    ResEnd (Some ''GRIP Signature Invalid.\<newline>'')])
               else if flattenHttpHeaders env (headers req ''last-event-id'') = Some ''error''
               then (Inr (), ops @ [ResSetStatusCode 400,
                       ResEnd (Some ''last-event-id header may not be 'error'.\<newline>'')])
               else
                 (case ResolveChannels env req eventStreamOptions of
                    Inl ex \<Rightarrow> (Inl ex, ops)
                  | Inr chans \<Rightarrow>
                      if chans = []
                      then (Inr (), ops @ [ResSetStatusCode 400,
                              ResEnd (Some (no_channels_message eventStreamOptions))])
                      else (Inr (), ops @ Handshake env g chans))))"

section \<open>The response that the operations of run leave behind\<close>

text \<open>
  A Node \<open>ServerResponse\<close>, as far as \<open>run\<close> uses it: \<open>statusCode\<close> is a field that can be
  assigned at any time; the status line goes out with the value the field has at the
  first \<open>write\<close> or \<open>end\<close>.
\<close>

record response =
  statusCode :: nat
  headerFields :: "(string \<times> string) list"
  sentStatus :: "nat option"
  sentBody :: "string list"
  finished :: bool

definition new_ServerResponse :: response where
  "new_ServerResponse =
     \<lparr> statusCode = 200, headerFields = [], sentStatus = None, sentBody = [],
       finished = False \<rparr>"

definition flushHeaders :: "response \<Rightarrow> response" where
  "flushHeaders res =
     (case sentStatus res of
        None \<Rightarrow> res\<lparr>sentStatus := Some (statusCode res)\<rparr>
      | Some _ \<Rightarrow> res)"

fun apply_op :: "op \<Rightarrow> response \<Rightarrow> response" where
  "apply_op (ResSetStatusCode n) res = res\<lparr>statusCode := n\<rparr>"
| "apply_op (ResSetHeader k v) res = res\<lparr>headerFields := headerFields res @ [(k, v)]\<rparr>"
| "apply_op (ResWrite chunk) res =
     (let res' = flushHeaders res in res'\<lparr>sentBody := sentBody res' @ [chunk]\<rparr>)"
| "apply_op (ResEnd body) res =
     (let res' = flushHeaders res in
      res'\<lparr>sentBody := sentBody res' @ (case body of None \<Rightarrow> [] | Some b \<Rightarrow> [b]),
           finished := True\<rparr>)"
| "apply_op _ res = res"

definition respond :: "op list \<Rightarrow> response \<Rightarrow> response" where
  "respond ops res = fold apply_op ops res"

text \<open>The operations that deliver event data to the client or start doing so.\<close>

fun delivers :: "op \<Rightarrow> bool" where
  "delivers (ResWrite _) = True"
| "delivers (ResEnd (Some _)) = True"
| "delivers (SubscribeAndPipe _) = True"
| "delivers _ = False"

fun touches_bus :: "op \<Rightarrow> bool" where
  "touches_bus (SubscribeAndPipe _) = True"
| "touches_bus _ = False"

section \<open>The channel list as the specification words it\<close>

text \<open>
  The specification of channel resolution: the values not already present are appended, each
  once, in the order in which they are first seen. \<open>first_seen seen vs\<close> is the list of
  those values of \<open>vs\<close> that are not in \<open>seen\<close>.
\<close>

fun first_seen :: "string list \<Rightarrow> string list \<Rightarrow> string list" where
  "first_seen seen [] = []"
| "first_seen seen (v # vs) =
     (if v \<in> set seen then first_seen seen vs else v # first_seen (v # seen) vs)"

section \<open>Concrete collaborators and requests for evaluating the handler\<close>

text \<open>
  One choice of the collaborators: the client accepts exactly the type its \<open>accept\<close> header
  names, proxy detection reports a proxied, unsigned request when a \<open>grip-sig\<close> header is
  present, and one URL carries three values of the \<open>channel\<close> parameter.
\<close>

definition example_env :: "string env" where
  "example_env =
     \<lparr> accepts_types =
         (\<lambda>req t. if headers req ''accept'' = Some (Single t) then Some t else None),
       connectGrip_run =
         (\<lambda>cg req. Inr (Some \<lparr> isProxied = (headers req ''grip-sig'' \<noteq> None),
                                 isSigned = False, needsSigned = False \<rparr>)),
       flattenHttpHeaders =
         (\<lambda>h. case h of
                None \<Rightarrow> None
              | Some (Single s) \<Rightarrow> Some s
              | Some (Multiple ss) \<Rightarrow> Some (concat ss)),
       searchParams =
         (\<lambda>req. if url req = Some ''/events?channel=a&channel=b&channel=a''
                then Inr [(''channel'', ''a''), (''channel'', ''b''), (''channel'', ''a'')]
                else Inr []),
       encodeEvent = (\<lambda>e. ''event: '' @ event e @ ''\<newline>data: '' @ data e @ ''\<newline>\<newline>''),
       joinEncodedEvents = concat,
       KEEP_ALIVE_TIMEOUT = 20 \<rparr>"

definition example_request :: "(string \<times> header_value) list \<Rightarrow> string \<Rightarrow> request" where
  "example_request hs u = \<lparr> headers = map_of hs, url = Some u, grip = None \<rparr>"

definition example_handler :: "string connect_event_stream" where
  "example_handler = new_ConnectEventStream (ParamsSpec ''http://localhost:5561/'')"

text \<open>
  Rejection reasons that are not \<open>Error\<close> instances, and their string conversion: a string
  converts to itself; for a Symbol and for an object made by \<open>Object.create(null)\<close> the
  conversion throws a \<open>TypeError\<close>.
\<close>

datatype reason = StringReason string | SymbolReason string | NullPrototypeObject

definition example_to_string :: "reason \<Rightarrow> reason thrown + string" where
  "example_to_string v =
     (case v of
        StringReason s \<Rightarrow> Inr s
      | SymbolReason d \<Rightarrow>
          Inl (ErrorInstance
                 (JsError ''TypeError'' ''Cannot convert a Symbol value to a string''))
      | NullPrototypeObject \<Rightarrow>
          Inl (ErrorInstance
                 (JsError ''TypeError'' ''Cannot convert object to primitive value'')))"

text \<open>A publisher that resolves, rejects or stalls, by the type of the event.\<close>

definition example_publishEvent :: "server_sent_event \<Rightarrow> reason settled option" where
  "example_publishEvent ev =
     (if event ev = ''ok'' then Some Resolved
      else if event ev = ''refused''
        then Some (Rejected (NonError (StringReason ''proxy refused'')))
      else if event ev = ''failed''
        then Some (Rejected (ErrorInstance (JsError ''PublishException'' ''503'')))
      else if event ev = ''closed''
        then Some (Rejected (NonError (SymbolReason ''closed'')))
      else if event ev = ''bare''
        then Some (Rejected (NonError NullPrototypeObject))
      else None)"

text \<open>Three requests: served directly, held by a proxy, and resuming from \<open>error\<close>.\<close>

definition direct_request :: request where
  "direct_request =
     example_request [(''accept'', Single ''text/event-stream'')]
       ''/events?channel=a&channel=b&channel=a''"

definition proxied_request :: request where
  "proxied_request =
     example_request [(''accept'', Single ''text/event-stream''),
                      (''grip-sig'', Single ''eyJhbGciOi'')]
       ''/events?channel=a&channel=b&channel=a''"

definition resuming_request :: request where
  "resuming_request =
     example_request [(''accept'', Single ''text/event-stream''),
                      (''last-event-id'', Single ''error'')]
       ''/events?channel=a''"

section \<open>Facts about the parts of run\<close>

lemma DetectProxy_ops:
  "DetectProxy env this req = (r, ops) \<Longrightarrow> ops = [] \<or> ops = [ConnectGripRun]"
  by (auto simp: DetectProxy_def split: option.splits sum.splits)

lemma respond_append: "respond (xs @ ys) res = respond ys (respond xs res)"
  by (simp add: respond_def)

lemma respond_DetectProxy:
  "DetectProxy env this req = (r, ops) \<Longrightarrow> respond ops res = res"
  by (drule DetectProxy_ops) (auto simp: respond_def)

lemma respond_end:
  "sentStatus res = None \<Longrightarrow>
   respond [ResSetStatusCode n, ResEnd (Some b)] res =
     res\<lparr>statusCode := n, sentStatus := Some n, sentBody := sentBody res @ [b],
         finished := True\<rparr>"
  by (simp add: respond_def flushHeaders_def)

lemma DetectProxy_searchParams:
  "DetectProxy (env\<lparr>searchParams := sp\<rparr>) this req = DetectProxy env this req"
  by (simp add: DetectProxy_def split: option.splits)

lemma run_after_detection:
  assumes "accepts_types env req ''text/event-stream'' = Some t"
    and "DetectProxy env this req = (Inr g, ops0)"
  shows "run env this req eventStreamOptions =
     (if isProxied g \<and> needsSigned g \<and> \<not> isSigned g
      then (Inr (), ops0 @ [ReqSetStatusCode 403,
                            ResEnd (Some ''GRIP Signature Invalid.\<newline>'')])
      else if flattenHttpHeaders env (headers req ''last-event-id'') = Some ''error''
      then (Inr (), ops0 @ [ResSetStatusCode 400,
              ResEnd (Some ''last-event-id header may not be 'error'.\<newline>'')])
      else
        (case ResolveChannels env req eventStreamOptions of
           Inl ex \<Rightarrow> (Inl ex, ops0)
         | Inr chans \<Rightarrow>
             if chans = []
             then (Inr (), ops0 @ [ResSetStatusCode 400,
                     ResEnd (Some (no_channels_message eventStreamOptions))])
             else (Inr (), ops0 @ Handshake env g chans)))"
  using assms by (simp add: run_def)

lemma run_accepted:
  assumes "accepts_types env req ''text/event-stream'' = Some t"
    and "DetectProxy env this req = (Inr g, ops0)"
    and "\<not> (isProxied g \<and> needsSigned g \<and> \<not> isSigned g)"
    and "flattenHttpHeaders env (headers req ''last-event-id'') \<noteq> Some ''error''"
    and "ResolveChannels env req eventStreamOptions = Inr chans"
    and "chans \<noteq> []"
  shows "run env this req eventStreamOptions = (Inr (), ops0 @ Handshake env g chans)"
  using assms(3-6) by (auto simp: run_after_detection [OF assms(1,2)])

lemma respond_Handshake:
  assumes "sentStatus res = None"
  shows "sentStatus (respond (Handshake env g chans) res) = Some 200"
    and "sentBody (respond (Handshake env g chans) res) =
           sentBody res
           @ [joinEncodedEvents env [encodeEvent env \<lparr> event = ''stream-open'', data = '''' \<rparr>]]"
    and "finished (respond (Handshake env g chans) res) = (isProxied g \<or> finished res)"
  using assms by (simp_all add: Handshake_def respond_def flushHeaders_def)

text \<open>
  The loop of channel resolution computes the list of the specification: the configured
  channels, then the new values in the order of their first occurrence.
\<close>

lemma first_seen_set_cong: "set s = set s' \<Longrightarrow> first_seen s vs = first_seen s' vs"
proof (induction vs arbitrary: s s')
  case Nil
  show ?case by simp
next
  case (Cons v vs)
  have a: "first_seen (v # s) vs = first_seen (v # s') vs"
    by (rule Cons.IH) (simp add: Cons.prems)
  have b: "first_seen s vs = first_seen s' vs"
    by (rule Cons.IH) (rule Cons.prems)
  show ?case using a b Cons.prems by simp
qed

lemma push_query_values_first_seen:
  "push_query_values chans vs = chans @ first_seen chans vs"
proof (induction vs arbitrary: chans)
  case Nil
  show ?case by simp
next
  case (Cons v vs)
  show ?case
  proof (cases "v \<in> set chans")
    case True
    then show ?thesis using Cons.IH [of chans] by simp
  next
    case False
    have "first_seen (chans @ [v]) vs = first_seen (v # chans) vs"
      by (rule first_seen_set_cong) simp
    then show ?thesis using False Cons.IH [of "chans @ [v]"] by simp
  qed
qed

lemma set_first_seen: "set (first_seen seen vs) = set vs - set seen"
  by (induction vs arbitrary: seen) auto

lemma distinct_first_seen: "distinct (first_seen seen vs)"
  by (induction vs arbitrary: seen) (simp_all add: set_first_seen)

lemma first_seen_snoc:
  "first_seen seen (vs @ [v]) =
     first_seen seen vs @ (if v \<in> set seen \<union> set vs then [] else [v])"
  by (induction vs arbitrary: seen) auto

lemma first_seen_remdups:
  "first_seen seen vs = rev (remdups (rev (filter (\<lambda>v. v \<notin> set seen) vs)))"
proof (induction vs rule: rev_induct)
  case Nil
  show ?case by simp
next
  case (snoc v vs)
  then show ?case by (auto simp: first_seen_snoc)
qed

subsection \<open>The collaborators and requests of the examples\<close>

lemma example_accepts:
  "accepts_types example_env direct_request ''text/event-stream'' = Some ''text/event-stream''"
  "accepts_types example_env proxied_request ''text/event-stream'' = Some ''text/event-stream''"
  "accepts_types example_env resuming_request ''text/event-stream'' = Some ''text/event-stream''"
  by (simp_all add: example_env_def example_request_def direct_request_def
        proxied_request_def resuming_request_def)

lemma example_DetectProxy:
  "DetectProxy example_env example_handler direct_request =
     (Inr \<lparr> isProxied = False, isSigned = False, needsSigned = False \<rparr>, [ConnectGripRun])"
  "DetectProxy example_env example_handler proxied_request =
     (Inr \<lparr> isProxied = True, isSigned = False, needsSigned = False \<rparr>, [ConnectGripRun])"
  "DetectProxy example_env example_handler resuming_request =
     (Inr \<lparr> isProxied = False, isSigned = False, needsSigned = False \<rparr>, [ConnectGripRun])"
  by (simp_all add: DetectProxy_def example_env_def example_request_def direct_request_def
        proxied_request_def resuming_request_def example_handler_def
        new_ConnectEventStream_def Let_def)

lemma example_signature:
  "\<not> (isProxied \<lparr> isProxied = p, isSigned = False, needsSigned = False \<rparr>
      \<and> needsSigned \<lparr> isProxied = p, isSigned = False, needsSigned = False \<rparr>
      \<and> \<not> isSigned \<lparr> isProxied = p, isSigned = False, needsSigned = False \<rparr>)"
  by simp

lemma example_resume:
  "flattenHttpHeaders example_env (headers direct_request ''last-event-id'') \<noteq> Some ''error''"
  "flattenHttpHeaders example_env (headers proxied_request ''last-event-id'') \<noteq> Some ''error''"
  "flattenHttpHeaders example_env (headers resuming_request ''last-event-id'') = Some ''error''"
  by (simp_all add: example_env_def example_request_def direct_request_def
        proxied_request_def resuming_request_def)

lemma example_ResolveChannels:
  "ResolveChannels example_env direct_request None = Inr [''a'', ''b'']"
  "ResolveChannels example_env proxied_request None = Inr [''a'', ''b'']"
  by (simp_all add: ResolveChannels_def configured_channels_def readChannelsFromQuery_def
        channelParamName_def getAll_def example_env_def example_request_def
        direct_request_def proxied_request_def)

lemma example_fresh: "sentStatus new_ServerResponse = None"
  by (simp add: new_ServerResponse_def)

section \<open>The Publish Sink\<close>

text \<open>
  What \<open>_write\<close> does by the outcome of \<open>publishEvent\<close>: \<open>callback()\<close> exactly when it resolves;
  \<open>callback(err)\<close> with the reason itself when it rejects with an \<open>Error\<close>, and with a new
  \<open>Error\<close> whose message is the converted reason when the reason converts to a string; no
  callback, and a rejected \<open>_write\<close>, when the conversion throws; nothing while
  \<open>publishEvent\<close> is pending. A rejection never leads to \<open>callback()\<close>.
\<close>

lemma write_resolved:
  "ChannelWritable_write publishEvent to_string ev = (Some (Inr ()), [Callback None])
     \<longleftrightarrow> publishEvent ev = Some Resolved"
  by (auto simp: ChannelWritable_write_def new_Error_def
           split: option.splits settled.splits thrown.splits sum.splits)

lemma write_rejected_Error:
  "publishEvent ev = Some (Rejected (ErrorInstance e)) \<Longrightarrow>
     ChannelWritable_write publishEvent to_string ev = (Some (Inr ()), [Callback (Some e)])"
  by (simp add: ChannelWritable_write_def)

lemma write_rejected_convertible:
  "publishEvent ev = Some (Rejected (NonError v)) \<Longrightarrow> to_string v = Inr message \<Longrightarrow>
     ChannelWritable_write publishEvent to_string ev =
       (Some (Inr ()), [Callback (Some (JsError ''Error'' message))])"
  by (simp add: ChannelWritable_write_def new_Error_def)

lemma write_rejected_unconvertible:
  "publishEvent ev = Some (Rejected (NonError v)) \<Longrightarrow> to_string v = Inl t \<Longrightarrow>
     ChannelWritable_write publishEvent to_string ev = (Some (Inl t), [])"
  by (simp add: ChannelWritable_write_def new_Error_def)

lemma write_pending:
  "ChannelWritable_write publishEvent to_string ev = (None, [])
     \<longleftrightarrow> publishEvent ev = None"
  by (auto simp: ChannelWritable_write_def split: option.splits sum.splits)

lemma write_never_silent:
  "publishEvent ev = Some (Rejected ex) \<Longrightarrow>
     Callback None \<notin> set (snd (ChannelWritable_write publishEvent to_string ev))"
  by (auto simp: ChannelWritable_write_def new_Error_def split: thrown.splits sum.splits)

lemma write_examples:
  "ChannelWritable_write example_publishEvent example_to_string
     \<lparr> event = ''ok'', data = ''1'' \<rparr> = (Some (Inr ()), [Callback None])"
  "ChannelWritable_write example_publishEvent example_to_string
     \<lparr> event = ''refused'', data = ''2'' \<rparr>
     = (Some (Inr ()), [Callback (Some (JsError ''Error'' ''proxy refused''))])"
  "ChannelWritable_write example_publishEvent example_to_string
     \<lparr> event = ''failed'', data = ''3'' \<rparr>
     = (Some (Inr ()), [Callback (Some (JsError ''PublishException'' ''503''))])"
  "ChannelWritable_write example_publishEvent example_to_string
     \<lparr> event = ''stalled'', data = ''4'' \<rparr> = (None, [])"
  by (simp_all add: ChannelWritable_write_def new_Error_def example_publishEvent_def
        example_to_string_def)

text \<open>
  C3. When \<open>publishEvent\<close> rejects with a Symbol, or with an object made by
  \<open>Object.create(null)\<close>, \<open>_write\<close> invokes the callback neither with an error nor without
  one: \<open>new Error(ex)\<close> throws a \<open>TypeError\<close> inside the \<open>catch\<close> block, and \<open>_write\<close> rejects
  with it.
\<close>

theorem write_unconvertible_reason_makes_no_callback:
  "example_publishEvent \<lparr> event = ''closed'', data = ''5'' \<rparr>
     = Some (Rejected (NonError (SymbolReason ''closed'')))
   \<and> ChannelWritable_write example_publishEvent example_to_string
       \<lparr> event = ''closed'', data = ''5'' \<rparr>
     = (Some (Inl (ErrorInstance
                     (JsError ''TypeError'' ''Cannot convert a Symbol value to a string''))),
        [])
   \<and> example_publishEvent \<lparr> event = ''bare'', data = ''6'' \<rparr>
     = Some (Rejected (NonError NullPrototypeObject))
   \<and> ChannelWritable_write example_publishEvent example_to_string
       \<lparr> event = ''bare'', data = ''6'' \<rparr>
     = (Some (Inl (ErrorInstance
                     (JsError ''TypeError'' ''Cannot convert object to primitive value''))),
        [])"
  by (simp add: ChannelWritable_write_def new_Error_def example_publishEvent_def
        example_to_string_def)

section \<open>The Connection Handler: terminal responses\<close>

text \<open>
  C6. When negotiation does not accept \<open>text/event-stream\<close>, \<open>run\<close> returns after setting
  status 406 and ending the response with the body \<open>Not Acceptable.\<close>; the status sent is
  406, and \<open>run\<close> has neither run proxy detection nor touched the bus.
\<close>

theorem not_acceptable_406:
  assumes "accepts_types env req ''text/event-stream'' = None"
    and "sentStatus res = None"
  shows "run env this req eventStreamOptions =
           (Inr (), [ResSetStatusCode 406, ResEnd (Some ''Not Acceptable.\<newline>'')])
         \<and> sentStatus (respond (snd (run env this req eventStreamOptions)) res) = Some 406
         \<and> sentBody (respond (snd (run env this req eventStreamOptions)) res)
             = sentBody res @ [''Not Acceptable.\<newline>'']
         \<and> finished (respond (snd (run env this req eventStreamOptions)) res)
         \<and> ConnectGripRun \<notin> set (snd (run env this req eventStreamOptions))
         \<and> list_all (\<lambda>x. \<not> touches_bus x) (snd (run env this req eventStreamOptions))"
proof -
  have r: "run env this req eventStreamOptions =
             (Inr (), [ResSetStatusCode 406, ResEnd (Some ''Not Acceptable.\<newline>'')])"
    using assms(1) by (simp add: run_def)
  show ?thesis
    unfolding r using assms(2) by (simp add: respond_end)
qed

theorem not_acceptable_406_witness:
  "run example_env example_handler
       (example_request [(''accept'', Single ''application/json'')] ''/events?channel=a'') None
     = (Inr (), [ResSetStatusCode 406, ResEnd (Some ''Not Acceptable.\<newline>'')])
   \<and> sentStatus (respond (snd (run example_env example_handler
         (example_request [(''accept'', Single ''application/json'')] ''/events?channel=a'')
         None)) new_ServerResponse) = Some 406"
proof -
  have a: "accepts_types example_env
             (example_request [(''accept'', Single ''application/json'')] ''/events?channel=a'')
             ''text/event-stream'' = None"
    by (simp add: example_env_def example_request_def)
  have b: "sentStatus new_ServerResponse = None"
    by (simp add: new_ServerResponse_def)
  show ?thesis
    using not_acceptable_406
            [OF a b, where this = example_handler and eventStreamOptions = None]
    by blast
qed

text \<open>
  What \<open>run\<close> does with a proxied request that needs a signature and has none: it assigns 403
  to \<open>statusCode\<close> of the request and ends the response, whose own \<open>statusCode\<close> it leaves as
  it was. It makes no subscription.
\<close>

lemma signature_rejected:
  assumes "accepts_types env req ''text/event-stream'' = Some t"
    and "DetectProxy env this req = (Inr g, ops0)"
    and "isProxied g \<and> needsSigned g \<and> \<not> isSigned g"
  shows "run env this req eventStreamOptions =
           (Inr (), ops0 @ [ReqSetStatusCode 403,
                            ResEnd (Some ''GRIP Signature Invalid.\<newline>'')])"
  using assms(3) by (simp add: run_after_detection [OF assms(1,2)])

lemma signature_rejected_status:
  assumes "DetectProxy env this req = (Inr g, ops0)"
    and "sentStatus res = None"
  shows "sentStatus (respond (ops0 @ [ReqSetStatusCode 403, ResEnd (Some b)]) res)
           = Some (statusCode res)"
proof -
  have "respond (ops0 @ [ReqSetStatusCode 403, ResEnd (Some b)]) res
          = respond [ReqSetStatusCode 403, ResEnd (Some b)] res"
    by (simp add: respond_append respond_DetectProxy [OF assms(1)])
  then show ?thesis
    using assms(2) by (simp add: respond_def flushHeaders_def)
qed

text \<open>
  C1. A request that passes negotiation and carries the flags proxied, needs a signature,
  not signed: \<open>run\<close> ends the response without a subscription, but the status sent on a
  fresh response is 200, not 403.
\<close>

theorem unsigned_proxied_request_keeps_status:
  "run example_env example_handler
     \<lparr> headers = [''accept'' \<mapsto> Single ''text/event-stream''],
       url = Some ''/events?channel=a'',
       grip = Some \<lparr> isProxied = True, isSigned = False, needsSigned = True \<rparr> \<rparr>
     None
   = (Inr (), [ReqSetStatusCode 403, ResEnd (Some ''GRIP Signature Invalid.\<newline>'')])
   \<and> sentStatus (respond [ReqSetStatusCode 403,
                            ResEnd (Some ''GRIP Signature Invalid.\<newline>'')]
                   new_ServerResponse) = Some 200"
  by (simp add: run_def DetectProxy_def example_env_def respond_def flushHeaders_def
        new_ServerResponse_def)

text \<open>
  C5. A request that reaches the check of the resume header (negotiation accepted it, proxy
  detection left its flags, the signature check let it pass) with the value \<open>error\<close> is
  answered with status 400 and the response is ended. Channel resolution has not happened:
  the outcome is the same for every value of the options and every behaviour of the query
  parser, one that throws included.
\<close>

theorem resume_header_error_400:
  assumes "accepts_types env req ''text/event-stream'' = Some t"
    and "DetectProxy env this req = (Inr g, ops0)"
    and "\<not> (isProxied g \<and> needsSigned g \<and> \<not> isSigned g)"
    and "flattenHttpHeaders env (headers req ''last-event-id'') = Some ''error''"
    and "sentStatus res = None"
  shows "run env this req eventStreamOptions =
           (Inr (), ops0 @ [ResSetStatusCode 400,
              ResEnd (Some ''last-event-id header may not be 'error'.\<newline>'')])
         \<and> sentStatus (respond (snd (run env this req eventStreamOptions)) res) = Some 400
         \<and> finished (respond (snd (run env this req eventStreamOptions)) res)
         \<and> (\<forall>sp opts'. run (env\<lparr>searchParams := sp\<rparr>) this req opts'
                          = run env this req eventStreamOptions)"
proof -
  have r: "\<And>opts. run env this req opts =
             (Inr (), ops0 @ [ResSetStatusCode 400,
                ResEnd (Some ''last-event-id header may not be 'error'.\<newline>'')])"
    using assms(3,4) by (simp add: run_after_detection [OF assms(1,2)])
  have r': "\<And>sp opts. run (env\<lparr>searchParams := sp\<rparr>) this req opts =
             (Inr (), ops0 @ [ResSetStatusCode 400,
                ResEnd (Some ''last-event-id header may not be 'error'.\<newline>'')])"
  proof -
    fix sp opts
    have a: "accepts_types (env\<lparr>searchParams := sp\<rparr>) req ''text/event-stream'' = Some t"
      using assms(1) by simp
    have d: "DetectProxy (env\<lparr>searchParams := sp\<rparr>) this req = (Inr g, ops0)"
      using assms(2) by (simp add: DetectProxy_searchParams)
    show "run (env\<lparr>searchParams := sp\<rparr>) this req opts =
             (Inr (), ops0 @ [ResSetStatusCode 400,
                ResEnd (Some ''last-event-id header may not be 'error'.\<newline>'')])"
      using assms(3,4) by (simp add: run_after_detection [OF a d])
  qed
  have s: "respond (ops0 @ [ResSetStatusCode 400,
              ResEnd (Some ''last-event-id header may not be 'error'.\<newline>'')]) res
           = respond [ResSetStatusCode 400,
              ResEnd (Some ''last-event-id header may not be 'error'.\<newline>'')] res"
    by (simp add: respond_append respond_DetectProxy [OF assms(2)])
  show ?thesis
    unfolding r r' using assms(5) by (simp add: s respond_end)
qed

theorem resume_header_error_400_witness:
  "sentStatus (respond (snd (run example_env example_handler resuming_request None))
                 new_ServerResponse) = Some 400
   \<and> finished (respond (snd (run example_env example_handler resuming_request None))
                 new_ServerResponse)"
  using resume_header_error_400
          [OF example_accepts(3) example_DetectProxy(3) example_signature example_resume(3)
              example_fresh, where eventStreamOptions = None]
  by blast

text \<open>
  What \<open>run\<close> answers to an empty channel list: status 400, and a message that appends the
  value of \<open>channelsFromQuery\<close> itself, not the name of the parameter that was read.
\<close>

lemma no_channels_400:
  assumes "accepts_types env req ''text/event-stream'' = Some t"
    and "DetectProxy env this req = (Inr g, ops0)"
    and "\<not> (isProxied g \<and> needsSigned g \<and> \<not> isSigned g)"
    and "flattenHttpHeaders env (headers req ''last-event-id'') \<noteq> Some ''error''"
    and "ResolveChannels env req eventStreamOptions = Inr []"
  shows "run env this req eventStreamOptions =
           (Inr (), ops0 @ [ResSetStatusCode 400,
                            ResEnd (Some (no_channels_message eventStreamOptions))])"
  using assms(3-5) by (auto simp: run_after_detection [OF assms(1,2)])

lemma no_channels_message_cases:
  "readChannelsFromQuery eventStreamOptions = FromQueryName n \<Longrightarrow>
     no_channels_message eventStreamOptions =
       ''No specified channels. Specify the channels to read from using the ?'' @ n
       @ '' query parameter.\<newline>''"
  "readChannelsFromQuery eventStreamOptions = FromQueryBool True \<Longrightarrow>
     no_channels_message eventStreamOptions =
       ''No specified channels. Specify the channels to read from using the ?true query parameter.\<newline>''"
  "readChannelsFromQuery eventStreamOptions = FromQueryBool False \<Longrightarrow>
     no_channels_message eventStreamOptions = ''No specified channels.\<newline>''"
  by (simp_all add: no_channels_message_def js_to_string_def Let_def)

text \<open>
  C2. With \<open>channelsFromQuery: true\<close>, no configured channel and no \<open>channel\<close> value in the
  query, the parameter that \<open>run\<close> reads is \<open>channel\<close>, and the response is ended with
  status 400, but the message names \<open>?true\<close>.
\<close>

theorem no_channels_message_says_true:
  "run example_env example_handler
     (example_request [(''accept'', Single ''text/event-stream'')] ''/events'')
     (Some \<lparr> channels = None, channelsFromQuery = Some (FromQueryBool True) \<rparr>)
   = (Inr (),
      [ConnectGripRun, ResSetStatusCode 400,
       ResEnd (Some ''No specified channels. Specify the channels to read from using the ?true query parameter.\<newline>'')])
   \<and> channelParamName
         (Some \<lparr> channels = None, channelsFromQuery = Some (FromQueryBool True) \<rparr>)
       = ''channel''"
  by (simp add: run_def DetectProxy_def example_env_def example_request_def
        example_handler_def new_ConnectEventStream_def ResolveChannels_def
        configured_channels_def readChannelsFromQuery_def channelParamName_def getAll_def
        no_channels_message_def js_to_string_def Let_def)

section \<open>The Connection Handler: channel resolution\<close>

text \<open>
  C7. When the query of the request parses, the resolved list is the configured channels,
  followed (if none is configured or \<open>channelsFromQuery\<close> is not \<open>false\<close>) by the values of
  the query parameter that are not configured, each once, in the order of their first
  occurrence; otherwise it is the configured channels alone. The appended values are
  distinct and disjoint from the configured ones. The parameter is \<open>channel\<close> unless
  \<open>channelsFromQuery\<close> is a string, which then is its name.
\<close>

theorem resolved_channels_first_seen:
  assumes "searchParams env req = Inr params"
  shows "ResolveChannels env req eventStreamOptions =
           Inr (if configured_channels eventStreamOptions = []
                   \<or> readChannelsFromQuery eventStreamOptions \<noteq> FromQueryBool False
                then configured_channels eventStreamOptions
                     @ first_seen (configured_channels eventStreamOptions)
                         (getAll (channelParamName eventStreamOptions) params)
                else configured_channels eventStreamOptions)
         \<and> distinct (first_seen (configured_channels eventStreamOptions)
                        (getAll (channelParamName eventStreamOptions) params))
         \<and> set (first_seen (configured_channels eventStreamOptions)
                   (getAll (channelParamName eventStreamOptions) params))
             = set (getAll (channelParamName eventStreamOptions) params)
               - set (configured_channels eventStreamOptions)
         \<and> first_seen (configured_channels eventStreamOptions)
              (getAll (channelParamName eventStreamOptions) params)
             = rev (remdups (rev (filter
                 (\<lambda>v. v \<notin> set (configured_channels eventStreamOptions))
                 (getAll (channelParamName eventStreamOptions) params))))
         \<and> (\<forall>b. readChannelsFromQuery eventStreamOptions = FromQueryBool b
                \<longrightarrow> channelParamName eventStreamOptions = ''channel'')
         \<and> (\<forall>n. readChannelsFromQuery eventStreamOptions = FromQueryName n
                \<longrightarrow> channelParamName eventStreamOptions = n)"
proof -
  have t1: "ResolveChannels env req eventStreamOptions =
           Inr (if configured_channels eventStreamOptions = []
                   \<or> readChannelsFromQuery eventStreamOptions \<noteq> FromQueryBool False
                then configured_channels eventStreamOptions
                     @ first_seen (configured_channels eventStreamOptions)
                         (getAll (channelParamName eventStreamOptions) params)
                else configured_channels eventStreamOptions)"
    using assms
    by (simp add: ResolveChannels_def Let_def push_query_values_first_seen)
  have t5: "\<forall>b. readChannelsFromQuery eventStreamOptions = FromQueryBool b
                \<longrightarrow> channelParamName eventStreamOptions = ''channel''"
    by (simp add: channelParamName_def)
  have t6: "\<forall>n. readChannelsFromQuery eventStreamOptions = FromQueryName n
                \<longrightarrow> channelParamName eventStreamOptions = n"
    by (simp add: channelParamName_def)
  show ?thesis
    using t1 t5 t6 distinct_first_seen set_first_seen first_seen_remdups by blast
qed

theorem resolved_channels_first_seen_witness:
  "ResolveChannels example_env
     (example_request [(''accept'', Single ''text/event-stream'')]
        ''/events?channel=a&channel=b&channel=a'')
     (Some \<lparr> channels = Some [''b''], channelsFromQuery = Some (FromQueryBool True) \<rparr>)
   = Inr [''b'', ''a'']"
proof -
  have a: "searchParams example_env
             (example_request [(''accept'', Single ''text/event-stream'')]
                ''/events?channel=a&channel=b&channel=a'')
           = Inr [(''channel'', ''a''), (''channel'', ''b''), (''channel'', ''a'')]"
    by (simp add: example_env_def example_request_def)
  show ?thesis
    using resolved_channels_first_seen
            [OF a, where eventStreamOptions =
               "Some \<lparr> channels = Some [''b''], channelsFromQuery = Some (FromQueryBool True) \<rparr>"]
    by (simp add: configured_channels_def readChannelsFromQuery_def channelParamName_def
          getAll_def)
qed

section \<open>The Connection Handler: handshake and delivery\<close>

text \<open>
  C4. For an accepted request (negotiation, proxy detection, the signature check, the check
  of the resume header and channel resolution with a non-empty list all passed), \<open>run\<close> sets
  status 200, prepares the delivery mode, writes the one frame of the \<open>stream-open\<close> event
  with empty data, and only then ends the response (proxied) or subscribes and pipes
  (direct). Nothing before the write delivers anything, the status sent is 200, and the
  frame is all that \<open>run\<close> itself puts into the body.
\<close>

theorem handshake_once_in_both_modes:
  assumes "accepts_types env req ''text/event-stream'' = Some t"
    and "DetectProxy env this req = (Inr g, ops0)"
    and "\<not> (isProxied g \<and> needsSigned g \<and> \<not> isSigned g)"
    and "flattenHttpHeaders env (headers req ''last-event-id'') \<noteq> Some ''error''"
    and "ResolveChannels env req eventStreamOptions = Inr chans"
    and "chans \<noteq> []"
    and "sentStatus res = None"
  shows "snd (run env this req eventStreamOptions) =
           (ops0 @ [ResSetStatusCode 200]
              @ (if isProxied g
                 then [StartInstruct, SetHoldStream, AddChannel chans,
                       SetKeepAlive (encodeEvent env \<lparr> event = ''keep-alive'', data = '''' \<rparr>)
                         (KEEP_ALIVE_TIMEOUT env)]
                 else [ResSetHeader ''Connection'' ''Transfer-Encoding'',
                       ResSetHeader ''Transfer-Encoding'' ''chunked'']))
           @ [ResWrite (joinEncodedEvents env
                          [encodeEvent env \<lparr> event = ''stream-open'', data = '''' \<rparr>])]
           @ (if isProxied g then [ResEnd None] else [SubscribeAndPipe chans])
         \<and> list_all (\<lambda>x. \<not> delivers x)
              (ops0 @ [ResSetStatusCode 200]
                 @ (if isProxied g
                    then [StartInstruct, SetHoldStream, AddChannel chans,
                          SetKeepAlive (encodeEvent env \<lparr> event = ''keep-alive'', data = '''' \<rparr>)
                            (KEEP_ALIVE_TIMEOUT env)]
                    else [ResSetHeader ''Connection'' ''Transfer-Encoding'',
                          ResSetHeader ''Transfer-Encoding'' ''chunked'']))
         \<and> sentStatus (respond (snd (run env this req eventStreamOptions)) res) = Some 200
         \<and> sentBody (respond (snd (run env this req eventStreamOptions)) res) =
             sentBody res
             @ [joinEncodedEvents env
                  [encodeEvent env \<lparr> event = ''stream-open'', data = '''' \<rparr>]]"
proof -
  have r: "run env this req eventStreamOptions = (Inr (), ops0 @ Handshake env g chans)"
    by (rule run_accepted [OF assms(1-6)])
  have q: "list_all (\<lambda>x. \<not> delivers x) ops0"
    using DetectProxy_ops [OF assms(2)] by auto
  have s: "respond (ops0 @ Handshake env g chans) res = respond (Handshake env g chans) res"
    by (simp add: respond_append respond_DetectProxy [OF assms(2)])
  have t1: "snd (run env this req eventStreamOptions) =
           (ops0 @ [ResSetStatusCode 200]
              @ (if isProxied g
                 then [StartInstruct, SetHoldStream, AddChannel chans,
                       SetKeepAlive (encodeEvent env \<lparr> event = ''keep-alive'', data = '''' \<rparr>)
                         (KEEP_ALIVE_TIMEOUT env)]
                 else [ResSetHeader ''Connection'' ''Transfer-Encoding'',
                       ResSetHeader ''Transfer-Encoding'' ''chunked'']))
           @ [ResWrite (joinEncodedEvents env
                          [encodeEvent env \<lparr> event = ''stream-open'', data = '''' \<rparr>])]
           @ (if isProxied g then [ResEnd None] else [SubscribeAndPipe chans])"
    unfolding r by (simp add: Handshake_def)
  have t2: "list_all (\<lambda>x. \<not> delivers x)
              (ops0 @ [ResSetStatusCode 200]
                 @ (if isProxied g
                    then [StartInstruct, SetHoldStream, AddChannel chans,
                          SetKeepAlive (encodeEvent env \<lparr> event = ''keep-alive'', data = '''' \<rparr>)
                            (KEEP_ALIVE_TIMEOUT env)]
                    else [ResSetHeader ''Connection'' ''Transfer-Encoding'',
                          ResSetHeader ''Transfer-Encoding'' ''chunked'']))"
    using q by simp
  have t3: "sentStatus (respond (snd (run env this req eventStreamOptions)) res) = Some 200"
    unfolding r by (simp add: s respond_Handshake(1) [OF assms(7)])
  have t4: "sentBody (respond (snd (run env this req eventStreamOptions)) res) =
             sentBody res
             @ [joinEncodedEvents env
                  [encodeEvent env \<lparr> event = ''stream-open'', data = '''' \<rparr>]]"
    unfolding r by (simp add: s respond_Handshake(2) [OF assms(7)])
  show ?thesis
    using t1 t2 t3 t4 by blast
qed

theorem handshake_once_in_both_modes_witness:
  "sentStatus (respond (snd (run example_env example_handler direct_request None))
                 new_ServerResponse) = Some 200
   \<and> sentBody (respond (snd (run example_env example_handler direct_request None))
                 new_ServerResponse)
       = sentBody new_ServerResponse
         @ [joinEncodedEvents example_env
              [encodeEvent example_env \<lparr> event = ''stream-open'', data = '''' \<rparr>]]
   \<and> sentStatus (respond (snd (run example_env example_handler proxied_request None))
                 new_ServerResponse) = Some 200
   \<and> sentBody (respond (snd (run example_env example_handler proxied_request None))
                 new_ServerResponse)
       = sentBody new_ServerResponse
         @ [joinEncodedEvents example_env
              [encodeEvent example_env \<lparr> event = ''stream-open'', data = '''' \<rparr>]]"
proof -
  have ne: "[''a'', ''b''] \<noteq> ([] :: string list)"
    by simp
  show ?thesis
    using handshake_once_in_both_modes
            [OF example_accepts(1) example_DetectProxy(1) example_signature example_resume(1)
                example_ResolveChannels(1) ne example_fresh]
          handshake_once_in_both_modes
            [OF example_accepts(2) example_DetectProxy(2) example_signature example_resume(2)
                example_ResolveChannels(2) ne example_fresh]
    by blast
qed

text \<open>
  C8. For an accepted proxied request, \<open>run\<close> starts a hold instruction, sets it to hold the
  stream, binds it to exactly the resolved channels, gives it the frame of the \<open>keep-alive\<close>
  event with empty data and the interval \<open>KEEP_ALIVE_TIMEOUT\<close>, writes the handshake frame and
  ends the response at once. It makes no subscription on the bus.
\<close>

theorem proxy_hold:
  assumes "accepts_types env req ''text/event-stream'' = Some t"
    and "DetectProxy env this req = (Inr g, ops0)"
    and "\<not> (isProxied g \<and> needsSigned g \<and> \<not> isSigned g)"
    and "flattenHttpHeaders env (headers req ''last-event-id'') \<noteq> Some ''error''"
    and "ResolveChannels env req eventStreamOptions = Inr chans"
    and "chans \<noteq> []"
    and "isProxied g"
    and "sentStatus res = None"
  shows "run env this req eventStreamOptions =
           (Inr (),
            ops0 @ [ResSetStatusCode 200, StartInstruct, SetHoldStream, AddChannel chans,
                    SetKeepAlive (encodeEvent env \<lparr> event = ''keep-alive'', data = '''' \<rparr>)
                      (KEEP_ALIVE_TIMEOUT env),
                    ResWrite (joinEncodedEvents env
                                [encodeEvent env \<lparr> event = ''stream-open'', data = '''' \<rparr>]),
                    ResEnd None])
         \<and> list_all (\<lambda>x. \<not> touches_bus x) (snd (run env this req eventStreamOptions))
         \<and> finished (respond (snd (run env this req eventStreamOptions)) res)
         \<and> sentBody (respond (snd (run env this req eventStreamOptions)) res) =
             sentBody res
             @ [joinEncodedEvents env
                  [encodeEvent env \<lparr> event = ''stream-open'', data = '''' \<rparr>]]"
proof -
  have r: "run env this req eventStreamOptions = (Inr (), ops0 @ Handshake env g chans)"
    by (rule run_accepted [OF assms(1-6)])
  have q: "list_all (\<lambda>x. \<not> touches_bus x) ops0"
    using DetectProxy_ops [OF assms(2)] by auto
  have s: "respond (ops0 @ Handshake env g chans) res = respond (Handshake env g chans) res"
    by (simp add: respond_append respond_DetectProxy [OF assms(2)])
  have h: "Handshake env g chans =
             [ResSetStatusCode 200, StartInstruct, SetHoldStream, AddChannel chans,
              SetKeepAlive (encodeEvent env \<lparr> event = ''keep-alive'', data = '''' \<rparr>)
                (KEEP_ALIVE_TIMEOUT env),
              ResWrite (joinEncodedEvents env
                          [encodeEvent env \<lparr> event = ''stream-open'', data = '''' \<rparr>]),
              ResEnd None]"
    using assms(7) by (simp add: Handshake_def)
  have t1: "run env this req eventStreamOptions =
           (Inr (),
            ops0 @ [ResSetStatusCode 200, StartInstruct, SetHoldStream, AddChannel chans,
                    SetKeepAlive (encodeEvent env \<lparr> event = ''keep-alive'', data = '''' \<rparr>)
                      (KEEP_ALIVE_TIMEOUT env),
                    ResWrite (joinEncodedEvents env
                                [encodeEvent env \<lparr> event = ''stream-open'', data = '''' \<rparr>]),
                    ResEnd None])"
    unfolding r h by simp
  have t2: "list_all (\<lambda>x. \<not> touches_bus x) (snd (run env this req eventStreamOptions))"
    unfolding r using q by (simp add: h)
  have t3: "finished (respond (snd (run env this req eventStreamOptions)) res)"
    unfolding r using assms(7) by (simp add: s respond_Handshake(3) [OF assms(8)])
  have t4: "sentBody (respond (snd (run env this req eventStreamOptions)) res) =
             sentBody res
             @ [joinEncodedEvents env
                  [encodeEvent env \<lparr> event = ''stream-open'', data = '''' \<rparr>]]"
    unfolding r by (simp add: s respond_Handshake(2) [OF assms(8)])
  show ?thesis
    using t1 t2 t3 t4 by blast
qed

theorem proxy_hold_witness:
  "run example_env example_handler proxied_request None =
     (Inr (),
      [ConnectGripRun]
      @ [ResSetStatusCode 200, StartInstruct, SetHoldStream, AddChannel [''a'', ''b''],
         SetKeepAlive (encodeEvent example_env \<lparr> event = ''keep-alive'', data = '''' \<rparr>)
           (KEEP_ALIVE_TIMEOUT example_env),
         ResWrite (joinEncodedEvents example_env
                     [encodeEvent example_env \<lparr> event = ''stream-open'', data = '''' \<rparr>]),
         ResEnd None])
   \<and> finished (respond (snd (run example_env example_handler proxied_request None))
                 new_ServerResponse)"
proof -
  have ne: "[''a'', ''b''] \<noteq> ([] :: string list)"
    by simp
  have p: "isProxied \<lparr> isProxied = True, isSigned = False, needsSigned = False \<rparr>"
    by simp
  show ?thesis
    using proxy_hold
            [OF example_accepts(2) example_DetectProxy(2) example_signature example_resume(2)
                example_ResolveChannels(2) ne p example_fresh]
    by blast
qed

section \<open>The Connection Handler: construction\<close>

lemma connectGrip_assigned:
  "connectGrip (new_ConnectEventStream p) \<noteq> None \<longleftrightarrow> p \<noteq> ParamsNull"
  by (cases p) (auto simp: new_ConnectEventStream_def Let_def split: option.splits)

lemma connectGrip_null: "connectGrip (new_ConnectEventStream ParamsNull) = None"
  by (simp add: new_ConnectEventStream_def)

text \<open>
  C9. A handler constructed with \<open>null\<close> has no \<open>connectGrip\<close>; for a request that passes
  negotiation with \<open>grip\<close> unset, \<open>run\<close> throws a \<open>TypeError\<close> at the call of
  \<open>this.connectGrip.run\<close> and has not touched the response. Proxy detection yields flags only
  if the handler has a \<open>connectGrip\<close> or the request already has \<open>grip\<close>, and the constructor
  assigns \<open>connectGrip\<close> exactly for an argument other than \<open>null\<close>.
\<close>

theorem null_configuration_throws:
  assumes "accepts_types env req ''text/event-stream'' = Some t"
    and "grip req = None"
  shows "run env (new_ConnectEventStream ParamsNull) req eventStreamOptions =
           (Inl (TypeError_undefined ''run''), [])
         \<and> respond (snd (run env (new_ConnectEventStream ParamsNull) req eventStreamOptions)) res
             = res
         \<and> (\<forall>p g ops. DetectProxy env (new_ConnectEventStream p) req = (Inr g, ops)
                \<longrightarrow> p \<noteq> ParamsNull)
         \<and> (\<forall>this req' g ops. DetectProxy env this req' = (Inr g, ops)
                \<longrightarrow> connectGrip this \<noteq> None \<or> grip req' \<noteq> None)
         \<and> (\<forall>p.
                connectGrip (new_ConnectEventStream p) \<noteq> None \<longleftrightarrow> p \<noteq> ParamsNull)"
proof -
  have d: "DetectProxy env (new_ConnectEventStream ParamsNull) req =
             (Inl (TypeError_undefined ''run''), [])"
    using assms(2) by (simp add: DetectProxy_def connectGrip_null)
  have t1: "run env (new_ConnectEventStream ParamsNull) req eventStreamOptions =
           (Inl (TypeError_undefined ''run''), [])"
    using assms(1) d by (simp add: run_def)
  have t2: "respond (snd (run env (new_ConnectEventStream ParamsNull) req eventStreamOptions)) res
             = res"
    unfolding t1 by (simp add: respond_def)
  have t4: "\<forall>this req' g ops. DetectProxy env this req' = (Inr g, ops)
                \<longrightarrow> connectGrip this \<noteq> None \<or> grip req' \<noteq> None"
    by (auto simp: DetectProxy_def split: option.splits)
  have t3: "\<forall>p g ops. DetectProxy env (new_ConnectEventStream p) req = (Inr g, ops)
                \<longrightarrow> p \<noteq> ParamsNull"
    using d by auto
  show ?thesis
    using t1 t2 t3 t4 connectGrip_assigned by blast
qed

theorem null_configuration_throws_witness:
  "run example_env (new_ConnectEventStream ParamsNull) direct_request None =
     (Inl (TypeError_undefined ''run''), [])"
proof -
  have g: "grip direct_request = None"
    by (simp add: direct_request_def example_request_def)
  show ?thesis
    using null_configuration_throws [OF example_accepts(1) g, where eventStreamOptions = None]
    by blast
qed

section \<open>getChannelWritable\<close>

text \<open>
  For a channel name that \<open>Object.prototype\<close> does not define, the first call constructs a
  \<open>ChannelWritable\<close> and stores it, and every later call returns that object and constructs
  nothing. For a name that \<open>Object.prototype\<close> defines, the call returns the inherited
  member.
\<close>

lemma getChannelWritable_first:
  assumes "channel \<notin> set Object_prototype_names"
    and "channelWritables this channel = None"
  shows "getChannelWritable channel (this, hp) =
           (ObjRef (length hp),
            this\<lparr>channelWritables := (channelWritables this)(channel \<mapsto> length hp)\<rparr>,
            hp @ [channel])"
  using assms by (simp add: getChannelWritable_def get_property_def)

lemma getChannelWritable_cached:
  assumes "channelWritables this channel = Some r"
  shows "getChannelWritable channel (this, hp) = (ObjRef r, this, hp)"
  using assms by (simp add: getChannelWritable_def get_property_def)

lemma getChannelWritable_memo:
  assumes "channel \<notin> set Object_prototype_names"
    and "getChannelWritable channel (this, hp) = (v, this1, hp1)"
  shows "\<exists>r. v = ObjRef r \<and> getChannelWritable channel (this1, hp1) = (ObjRef r, this1, hp1)"
proof (cases "channelWritables this channel")
  case None
  have "getChannelWritable channel (this, hp) =
           (ObjRef (length hp),
            this\<lparr>channelWritables := (channelWritables this)(channel \<mapsto> length hp)\<rparr>,
            hp @ [channel])"
    by (rule getChannelWritable_first [OF assms(1) None])
  with assms(2) have e: "v = ObjRef (length hp)"
      "this1 = this\<lparr>channelWritables := (channelWritables this)(channel \<mapsto> length hp)\<rparr>"
      "hp1 = hp @ [channel]"
    by simp_all
  have "channelWritables this1 channel = Some (length hp)"
    by (simp add: e(2))
  then show ?thesis
    using e(1) by (simp add: getChannelWritable_cached)
next
  case (Some r)
  then show ?thesis
    using assms(2) by (auto simp: getChannelWritable_cached)
qed

lemma getChannelWritable_prototype_name:
  assumes "channel \<in> set Object_prototype_names"
    and "channelWritables this channel = None"
  shows "getChannelWritable channel (this, hp) = (ObjectPrototypeMember channel, this, hp)"
  using assms by (simp add: getChannelWritable_def get_property_def)

text \<open>
  C10. On a new handler, \<open>getChannelWritable('constructor')\<close> returns the inherited
  \<open>constructor\<close> of \<open>Object.prototype\<close>: it constructs no \<open>ChannelWritable\<close> and stores
  nothing, where \<open>getChannelWritable('news')\<close> constructs object 0 and stores it.
\<close>

theorem getChannelWritable_constructor:
  "getChannelWritable ''constructor'' (example_handler, [])
     = (ObjectPrototypeMember ''constructor'', example_handler, [])
   \<and> getChannelWritable ''news'' (example_handler, [])
     = (ObjRef 0, example_handler\<lparr>channelWritables := [''news'' \<mapsto> 0]\<rparr>, [''news''])"
  by (simp add: getChannelWritable_def get_property_def Object_prototype_names_def
        example_handler_def new_ConnectEventStream_def Let_def)

end
